theory Spec2Isabelle
  imports Main "HOL-Library.Word" "HOL-Library.AList"
begin

unbundle bit_operations_syntax

section \<open>Errors, panics and basic types\<close>

text \<open>
  The Go package \<^verbatim>\<open>sisyphus\<close> reports failures as \<^verbatim>\<open>error\<close> values and, where a slice
  expression, an index or a type assertion is out of range, by a run-time panic. Both are
  values of the model: an \<open>error option\<close> is Go's \<^verbatim>\<open>error\<close> (\<open>None\<close> is \<^verbatim>\<open>nil\<close>), and a
  function that can panic returns an \<open>outcome\<close>.
\<close>

datatype errno = EINVAL | ENOENT | ENOTDIR | EBADFD

datatype error =
    EOF
  | ErrBadName
  | Errno errno
  | PathError string string errno
  | OtherError string

datatype 'a outcome = Panic | Return 'a

type_synonym byte = "8 word"

type_synonym time = int

definition zero_time :: time where
  "zero_time = 0"

text \<open>
  Go's \<^verbatim>\<open>int64\<close> addition wraps around. Offsets and sizes are integers of the model; the
  one sum the package computes on them is wrapped explicitly.
\<close>

definition wrap64 :: "int \<Rightarrow> int" where
  "wrap64 x = (x + 2 ^ 63) mod 2 ^ 64 - 2 ^ 63"

definition max_int64 :: int where
  "max_int64 = 2 ^ 63 - 1"

section \<open>Data backends (sisyphus.go)\<close>

subsection \<open>Byte slices\<close>

text \<open>
  A Go slice is a window on a backing array: \<open>backing\<close> is the array from the slice's
  first element up to its capacity, \<open>slen\<close> the slice's length. The bytes of the slice
  are \<open>take slen backing\<close>; the bytes behind them stay in the array and come back when
  the slice is re-sliced up to its capacity.
\<close>

record Bytes =
  backing :: "byte list"
  slen :: nat

definition cap :: "Bytes \<Rightarrow> nat" where
  "cap f = length (backing f)"

definition contents :: "Bytes \<Rightarrow> byte list" where
  "contents f = take (slen f) (backing f)"

definition wf_Bytes :: "Bytes \<Rightarrow> bool" where
  "wf_Bytes f \<longleftrightarrow> slen f \<le> length (backing f)"

text \<open>\<^verbatim>\<open>[]byte(s)\<close> for a literal: a slice that fills its array.\<close>

definition bytes_of :: "byte list \<Rightarrow> Bytes" where
  "bytes_of xs = \<lparr>backing = xs, slen = length xs\<rparr>"

definition NewBytes :: "Bytes \<Rightarrow> Bytes" where
  "NewBytes data = data"

text \<open>The builtin \<^verbatim>\<open>copy(dst, src)\<close>: the new \<^verbatim>\<open>dst\<close> and the number of bytes copied.\<close>

definition copy :: "byte list \<Rightarrow> byte list \<Rightarrow> byte list \<times> nat" where
  "copy dst src =
     (let n = min (length dst) (length src) in (take n src @ drop n dst, n))"

text \<open>
  \<^verbatim>\<open>Bytes.ReadAt(b, offset)\<close>. The result is the buffer \<^verbatim>\<open>b\<close> after the call, the count
  \<^verbatim>\<open>n\<close> and the error. The slice expression \<^verbatim>\<open>(*f)[offset:]\<close> panics on a negative offset.
\<close>

definition Bytes_ReadAt :: "Bytes \<Rightarrow> byte list \<Rightarrow> int \<Rightarrow> (byte list \<times> nat \<times> error option) outcome" where
  "Bytes_ReadAt f b offset =
     (if length b = 0 then Return (b, 0, None)
      else if offset \<ge> int (slen f) then Return (b, 0, Some EOF)
      else if offset < 0 then Panic
      else
        (let (b', n) = copy b (drop (nat offset) (contents f)) in
         if n \<le> length b then Return (b', n, Some EOF)
         else Return (b', n, None)))"

text \<open>
  \<^verbatim>\<open>Bytes.Truncate(n)\<close>: the tail \<^verbatim>\<open>(*f)[n:cap(*f)]\<close> of the array is zeroed and the
  slice shortened to \<^verbatim>\<open>n\<close>.
\<close>

definition Bytes_Truncate :: "Bytes \<Rightarrow> int \<Rightarrow> Bytes \<times> error option" where
  "Bytes_Truncate f n =
     (if n < 0 \<or> n > int (slen f) then (f, Some (Errno EINVAL))
      else
        (\<lparr>backing = take (nat n) (backing f) @ replicate (cap f - nat n) 0,
          slen = nat n\<rparr>, None))"

text \<open>
  The run time allocates no slice longer than a bound of the platform: its maximum
  allocation size (\<open>2 ^ 48\<close> bytes on 64-bit Linux), or the largest \<^verbatim>\<open>int\<close> where that is
  smaller. The bound is the parameter \<open>limit\<close>. \<^verbatim>\<open>make([]byte, n)\<close> panics
  (\<^verbatim>\<open>makeslice: len out of range\<close>) when \<open>n\<close> is negative or above the bound, and returns
  \<open>n\<close> zero bytes otherwise.
\<close>

definition make_bytes :: "nat \<Rightarrow> int \<Rightarrow> byte list outcome" where
  "make_bytes limit n =
     (if n < 0 \<or> n > int limit then Panic else Return (replicate (nat n) 0))"

text \<open>
  The builtin \<^verbatim>\<open>append(s, b...)\<close>. Within the capacity the bytes are written into the
  array in place; beyond it the run time allocates a fresh, zeroed array and copies the
  slice. The capacity of the fresh array is the run time's choice: \<open>grow c n\<close> is the
  capacity chosen for a slice of capacity \<open>c\<close> that needs \<open>n\<close> elements, and it is at
  least \<open>n\<close> whatever \<open>grow\<close> says. When the chosen capacity is above the bound the run
  time panics (\<^verbatim>\<open>growslice: len out of range\<close>).
\<close>

definition append_bytes ::
  "nat \<Rightarrow> (nat \<Rightarrow> nat \<Rightarrow> nat) \<Rightarrow> Bytes \<Rightarrow> byte list \<Rightarrow> Bytes outcome" where
  "append_bytes limit grow s b =
     (let need = slen s + length b in
      if need \<le> cap s
      then Return \<lparr>backing = take (slen s) (backing s) @ b @ drop need (backing s),
                   slen = need\<rparr>
      else
        (let newcap = max need (grow (cap s) need) in
         if newcap > limit then Panic
         else Return \<lparr>backing = take (slen s) (backing s) @ b @ replicate (newcap - need) 0,
                       slen = need\<rparr>))"

text \<open>
  \<^verbatim>\<open>Bytes.WriteAt(b, off)\<close>. The length given to \<^verbatim>\<open>make\<close> is the wrapped sum
  \<^verbatim>\<open>off+int64(len(b))\<close>, negative when it overflows; the slice expression \<^verbatim>\<open>(*f)[:off]\<close>
  panics unless \<open>0 \<le> off \<le> cap\<close>. The result is the new slice and the pair the method
  returns.
\<close>

definition Bytes_WriteAt ::
  "nat \<Rightarrow> (nat \<Rightarrow> nat \<Rightarrow> nat) \<Rightarrow> Bytes \<Rightarrow> byte list \<Rightarrow> int
     \<Rightarrow> (Bytes \<times> nat \<times> error option) outcome" where
  "Bytes_WriteAt limit grow f b off =
     (let r1 =
        (if off \<ge> int (cap f) then
           (case make_bytes limit (wrap64 (off + int (length b))) of
              Panic \<Rightarrow> Panic
            | Return z \<Rightarrow>
               (let (t, _) = copy z (contents f) in
                Return \<lparr>backing = t, slen = length t\<rparr>))
         else Return f)
      in case r1 of
           Panic \<Rightarrow> Panic
         | Return f1 \<Rightarrow>
            (if off < 0 \<or> off > int (cap f1) then Panic
             else
               (case append_bytes limit grow (f1\<lparr>slen := nat off\<rparr>) b of
                  Panic \<Rightarrow> Panic
                | Return f3 \<Rightarrow> Return (f3, length b, None))))"

definition Bytes_Size :: "Bytes \<Rightarrow> int \<times> error option" where
  "Bytes_Size f = (int (slen f), None)"

subsection \<open>Strings\<close>

text \<open>\<^verbatim>\<open>String.ReadAt(b, off)\<close>: a Go string is its bytes.\<close>

definition String_ReadAt :: "byte list \<Rightarrow> byte list \<Rightarrow> int \<Rightarrow> byte list \<times> nat \<times> error option" where
  "String_ReadAt s b off =
     (if off < 0 then (b, 0, Some (Errno EINVAL))
      else if off \<ge> int (length s) then (b, 0, Some EOF)
      else
        (let (b', n) = copy b (drop (nat off) s) in
         if n \<le> length b then (b', n, Some EOF)
         else (b', n, None)))"

definition String_Size :: "byte list \<Rightarrow> int \<times> error option" where
  "String_Size s = (int (length s), None)"

subsection \<open>Callback functions\<close>

text \<open>
  \<^verbatim>\<open>Func\<close> is a function value that may be \<^verbatim>\<open>nil\<close>; the model keeps the result of a
  call and leaves the callback's side effects out.
\<close>

type_synonym Func = "(byte list \<Rightarrow> int \<Rightarrow> nat \<times> error option) option"

definition Func_WriteAt :: "Func \<Rightarrow> byte list \<Rightarrow> int \<Rightarrow> nat \<times> error option" where
  "Func_WriteAt f b off =
     (case f of None \<Rightarrow> (0, Some (Errno EBADFD)) | Some g \<Rightarrow> g b off)"

definition Func_Truncate :: "Func \<Rightarrow> int \<Rightarrow> Func \<times> error option" where
  "Func_Truncate f n = (f, None)"

definition Func_Size :: "Func \<Rightarrow> int \<times> error option" where
  "Func_Size f = (0, None)"

subsection \<open>The backend interfaces\<close>

text \<open>
  \<^verbatim>\<open>Writer\<close> and \<^verbatim>\<open>ReadWriter\<close> are Go interfaces: a file node calls whatever
  implementation it was given. An implementation over a backend state \<open>'d\<close> is the record
  of its methods; each method returns the new state where the Go method has a pointer
  receiver.
\<close>

record 'd Writer =
  WriteAt :: "'d \<Rightarrow> byte list \<Rightarrow> int \<Rightarrow> ('d \<times> nat \<times> error option) outcome"
  Truncate :: "'d \<Rightarrow> int \<Rightarrow> 'd \<times> error option"
  Size :: "'d \<Rightarrow> int \<times> error option"

record 'd ReadWriter = "'d Writer" +
  ReadAt :: "'d \<Rightarrow> byte list \<Rightarrow> int \<Rightarrow> (byte list \<times> nat \<times> error option) outcome"

definition Bytes_ReadWriter :: "nat \<Rightarrow> (nat \<Rightarrow> nat \<Rightarrow> nat) \<Rightarrow> Bytes ReadWriter" where
  "Bytes_ReadWriter limit grow =
     \<lparr>WriteAt = Bytes_WriteAt limit grow, Truncate = Bytes_Truncate, Size = Bytes_Size,
      ReadAt = Bytes_ReadAt\<rparr>"

definition Func_Writer :: "Func Writer" where
  "Func_Writer =
     \<lparr>WriteAt = (\<lambda>f b off. Return (f, Func_WriteAt f b off)),
      Truncate = Func_Truncate, Size = Func_Size\<rparr>"

section \<open>Attributes (sisyphus.go)\<close>

type_synonym FileMode = "32 word"

definition ModeDir :: FileMode where
  "ModeDir = push_bit 31 1"

definition ModeSymlink :: FileMode where
  "ModeSymlink = push_bit 27 1"

definition ModeNamedPipe :: FileMode where
  "ModeNamedPipe = push_bit 25 1"

definition ModeSocket :: FileMode where
  "ModeSocket = push_bit 24 1"

record attr =
  mode :: FileMode
  uid :: "32 word"
  gid :: "32 word"
  atime :: time
  mtime :: time
  ctime :: time

text \<open>The zero value of \<^verbatim>\<open>attr\<close>, with the mode a constructor gives it.\<close>

definition attr_of_mode :: "FileMode \<Rightarrow> attr" where
  "attr_of_mode m =
     \<lparr>mode = m, uid = 0, gid = 0, atime = zero_time, mtime = zero_time, ctime = zero_time\<rparr>"

text \<open>
  The fields of \<^verbatim>\<open>fuse.Attr\<close>, \<^verbatim>\<open>fuse.SetattrRequest\<close> and \<^verbatim>\<open>fuse.SetattrResponse\<close> that
  the package reads or writes, and the bits of \<^verbatim>\<open>fuse.SetattrValid\<close> as the library
  \<^verbatim>\<open>bazil.org/fuse\<close> declares them.
\<close>

record Attr =
  Attr_Size :: "64 word"
  Attr_Mode :: FileMode
  Attr_Uid :: "32 word"
  Attr_Gid :: "32 word"
  Attr_Atime :: time
  Attr_Mtime :: time
  Attr_Ctime :: time

record SetattrRequest =
  req_Valid :: "32 word"
  req_Size :: "64 word"
  req_Mode :: FileMode
  req_Uid :: "32 word"
  req_Gid :: "32 word"
  req_Atime :: time
  req_Mtime :: time

type_synonym SetattrResponse = Attr

definition SetattrMode :: "32 word" where
  "SetattrMode = push_bit 0 1"

definition SetattrUid :: "32 word" where
  "SetattrUid = push_bit 1 1"

definition SetattrGid :: "32 word" where
  "SetattrGid = push_bit 2 1"

definition SetattrSize :: "32 word" where
  "SetattrSize = push_bit 3 1"

definition SetattrAtime :: "32 word" where
  "SetattrAtime = push_bit 4 1"

definition SetattrMtime :: "32 word" where
  "SetattrMtime = push_bit 5 1"

definition copyAttr :: "Attr \<Rightarrow> attr \<Rightarrow> Attr" where
  "copyAttr dst src =
     dst\<lparr>Attr_Mode := mode src, Attr_Uid := uid src, Attr_Gid := gid src,
         Attr_Atime := atime src, Attr_Mtime := mtime src, Attr_Ctime := ctime src\<rparr>"

text \<open>\<^verbatim>\<open>setAttr(dst, resp, src)\<close>: the new \<^verbatim>\<open>*dst\<close> and the new \<^verbatim>\<open>*resp\<close>.\<close>

definition setAttr :: "attr \<Rightarrow> SetattrResponse \<Rightarrow> SetattrRequest \<Rightarrow> attr \<times> SetattrResponse" where
  "setAttr dst resp src =
     (let (dst1, resp1) =
        (if req_Valid src AND SetattrMode \<noteq> 0
         then (dst\<lparr>mode := req_Mode src\<rparr>, resp\<lparr>Attr_Mode := req_Mode src\<rparr>)
         else (dst, resp));
          (dst2, resp2) =
        (if req_Valid src AND SetattrUid \<noteq> 0
         then (dst1\<lparr>uid := req_Uid src\<rparr>, resp1\<lparr>Attr_Uid := req_Uid src\<rparr>)
         else (dst1, resp1));
          (dst3, resp3) =
        (if req_Valid src AND SetattrGid \<noteq> 0
         then (dst2\<lparr>gid := req_Gid src\<rparr>, resp2\<lparr>Attr_Gid := req_Gid src\<rparr>)
         else (dst2, resp2));
          (dst4, resp4) =
        (if req_Valid src AND SetattrAtime \<noteq> 0
         then (dst3\<lparr>atime := req_Atime src\<rparr>, resp3\<lparr>Attr_Atime := req_Atime src\<rparr>)
         else (dst3, resp3))
      in
        (if req_Valid src AND SetattrMtime \<noteq> 0
         then (dst4\<lparr>mtime := req_Mtime src\<rparr>, resp4\<lparr>Attr_Mtime := req_Mtime src\<rparr>)
         else (dst4, resp4)))"

section \<open>Nodes\<close>

text \<open>
  A node points to the file system that holds it. The pointer is the address of the
  \<^verbatim>\<open>FileSystem\<close> (\<open>None\<close> is \<^verbatim>\<open>nil\<close>); what a node reaches through it is the clock. The
  clock is a Go function that may answer differently at each call: \<open>now k\<close> is its answer
  at its \<open>k\<close>-th call, and every function that may call it takes and returns the number
  of calls made so far.
\<close>

record FileSystem_ref =
  addr :: nat
  now :: "nat \<Rightarrow> time"

definition ptr :: "FileSystem_ref option \<Rightarrow> nat option" where
  "ptr filesys = map_option addr filesys"

definition nofs :: "FileSystem_ref option" where
  "nofs = None"

record 'd RO =
  ro_name :: string
  ro_attr :: attr
  ro_fs :: "nat option"
  ro_dev :: 'd

record 'd WO =
  wo_name :: string
  wo_attr :: attr
  wo_fs :: "nat option"
  wo_dev :: 'd

record 'd RW =
  rw_name :: string
  rw_attr :: attr
  rw_fs :: "nat option"
  rw_dev :: 'd

text \<open>
  A directory owns the map from names to children. The map is an association list read
  with \<open>map_of\<close> and written with \<open>AList.update\<close> and \<open>AList.delete\<close>; the order in which
  Go ranges over a map is not fixed, and the list's order stands for one such order.
  The children are values: the model is of trees, in which no node is held twice.
\<close>

datatype 'd Node = DirN "'d Dir" | RON "'d RO" | WON "'d WO" | RWN "'d RW"
  and 'd Dir = Dir (dir_name: string) (dir_attr: attr) (files: "(string \<times> 'd Node) list")
                   (dir_fs: "nat option")

definition Separator :: char where
  "Separator = CHR ''/''"

definition Contains_Separator :: "string \<Rightarrow> bool" where
  "Contains_Separator name \<longleftrightarrow> Separator \<in> set name"

definition NewDir :: "string \<Rightarrow> FileMode \<Rightarrow> error + 'd Dir" where
  "NewDir name m =
     (if name \<noteq> ''/'' \<and> Contains_Separator name then Inl ErrBadName
      else Inr (Dir name
                  (attr_of_mode (ModeDir OR (m AND NOT (ModeSymlink OR ModeNamedPipe OR ModeSocket))))
                  [] None))"

definition NewRO :: "string \<Rightarrow> FileMode \<Rightarrow> 'd \<Rightarrow> error + 'd RO" where
  "NewRO name m dev =
     (if Contains_Separator name then Inl ErrBadName
      else Inr \<lparr>ro_name = name, ro_attr = attr_of_mode (m AND NOT (ModeDir OR 146)),
                ro_fs = None, ro_dev = dev\<rparr>)"

definition NewWO :: "string \<Rightarrow> FileMode \<Rightarrow> 'd \<Rightarrow> 'd WO" where
  "NewWO name m dev =
     \<lparr>wo_name = name, wo_attr = attr_of_mode (m AND NOT (ModeDir OR 292)),
      wo_fs = None, wo_dev = dev\<rparr>"

definition NewRW :: "string \<Rightarrow> FileMode \<Rightarrow> 'd \<Rightarrow> error + 'd RW" where
  "NewRW name m dev =
     (if Contains_Separator name then Inl ErrBadName
      else Inr \<lparr>rw_name = name, rw_attr = attr_of_mode (m AND NOT ModeDir),
                rw_fs = None, rw_dev = dev\<rparr>)"

subsection \<open>Setattr of the file nodes\<close>

text \<open>
  \<^verbatim>\<open>RW.Setattr\<close> and \<^verbatim>\<open>WO.Setattr\<close> have the same body. \<^verbatim>\<open>int64(req.Size)\<close> reads the
  unsigned size as a signed number. The result is the node, the response and the error.
\<close>

definition RW_Setattr ::
  "('d, 'x) Writer_scheme \<Rightarrow> 'd RW \<Rightarrow> SetattrRequest \<Rightarrow> SetattrResponse
     \<Rightarrow> 'd RW \<times> SetattrResponse \<times> error option" where
  "RW_Setattr ops f req resp =
     (if req_Valid req AND SetattrSize \<noteq> 0 then
        (case Truncate ops (rw_dev f) (sint (req_Size req)) of
           (d1, Some err) \<Rightarrow> (f\<lparr>rw_dev := d1\<rparr>, resp, Some err)
         | (d1, None) \<Rightarrow>
            (case Size ops d1 of
               (size1, Some err) \<Rightarrow> (f\<lparr>rw_dev := d1\<rparr>, resp, Some err)
             | (size1, None) \<Rightarrow>
                (let (a, resp2) = setAttr (rw_attr f) (resp\<lparr>Attr_Size := word_of_int size1\<rparr>) req
                 in (f\<lparr>rw_dev := d1, rw_attr := a\<rparr>, resp2, None))))
      else
        (let (a, resp2) = setAttr (rw_attr f) resp req
         in (f\<lparr>rw_attr := a\<rparr>, resp2, None)))"

definition WO_Setattr ::
  "('d, 'x) Writer_scheme \<Rightarrow> 'd WO \<Rightarrow> SetattrRequest \<Rightarrow> SetattrResponse
     \<Rightarrow> 'd WO \<times> SetattrResponse \<times> error option" where
  "WO_Setattr ops f req resp =
     (if req_Valid req AND SetattrSize \<noteq> 0 then
        (case Truncate ops (wo_dev f) (sint (req_Size req)) of
           (d1, Some err) \<Rightarrow> (f\<lparr>wo_dev := d1\<rparr>, resp, Some err)
         | (d1, None) \<Rightarrow>
            (case Size ops d1 of
               (size1, Some err) \<Rightarrow> (f\<lparr>wo_dev := d1\<rparr>, resp, Some err)
             | (size1, None) \<Rightarrow>
                (let (a, resp2) = setAttr (wo_attr f) (resp\<lparr>Attr_Size := word_of_int size1\<rparr>) req
                 in (f\<lparr>wo_dev := d1, wo_attr := a\<rparr>, resp2, None))))
      else
        (let (a, resp2) = setAttr (wo_attr f) resp req
         in (f\<lparr>wo_attr := a\<rparr>, resp2, None)))"

subsection \<open>Name, Sys and SetSys\<close>

text \<open>
  \<^verbatim>\<open>SetSys\<close> has the same body in the four node types: it stores the pointer and stamps
  the three times with the clock's answer, or with the zero time for a \<^verbatim>\<open>nil\<close> pointer,
  in which case the clock is not called.
\<close>

definition stamp :: "FileSystem_ref option \<Rightarrow> nat \<Rightarrow> time \<times> nat" where
  "stamp filesys t =
     (case filesys of None \<Rightarrow> (zero_time, t) | Some r \<Rightarrow> (now r t, Suc t))"

definition Dir_SetSys :: "'d Dir \<Rightarrow> FileSystem_ref option \<Rightarrow> nat \<Rightarrow> 'd Dir \<times> nat" where
  "Dir_SetSys d filesys t =
     (let (tm, t') = stamp filesys t in
      (Dir (dir_name d) ((dir_attr d)\<lparr>ctime := tm, atime := tm, mtime := tm\<rparr>) (files d)
           (ptr filesys), t'))"

definition RO_SetSys :: "'d RO \<Rightarrow> FileSystem_ref option \<Rightarrow> nat \<Rightarrow> 'd RO \<times> nat" where
  "RO_SetSys f filesys t =
     (let (tm, t') = stamp filesys t in
      (f\<lparr>ro_fs := ptr filesys, ro_attr := (ro_attr f)\<lparr>ctime := tm, atime := tm, mtime := tm\<rparr>\<rparr>, t'))"

definition WO_SetSys :: "'d WO \<Rightarrow> FileSystem_ref option \<Rightarrow> nat \<Rightarrow> 'd WO \<times> nat" where
  "WO_SetSys f filesys t =
     (let (tm, t') = stamp filesys t in
      (f\<lparr>wo_fs := ptr filesys, wo_attr := (wo_attr f)\<lparr>ctime := tm, atime := tm, mtime := tm\<rparr>\<rparr>, t'))"

definition RW_SetSys :: "'d RW \<Rightarrow> FileSystem_ref option \<Rightarrow> nat \<Rightarrow> 'd RW \<times> nat" where
  "RW_SetSys f filesys t =
     (let (tm, t') = stamp filesys t in
      (f\<lparr>rw_fs := ptr filesys, rw_attr := (rw_attr f)\<lparr>ctime := tm, atime := tm, mtime := tm\<rparr>\<rparr>, t'))"

text \<open>The methods of the interface \<^verbatim>\<open>Node\<close>, dispatched on the node's type.\<close>

fun Name :: "'d Node \<Rightarrow> string" where
  "Name (DirN d) = dir_name d"
| "Name (RON f) = ro_name f"
| "Name (WON f) = wo_name f"
| "Name (RWN f) = rw_name f"

fun Sys :: "'d Node \<Rightarrow> nat option" where
  "Sys (DirN d) = dir_fs d"
| "Sys (RON f) = ro_fs f"
| "Sys (WON f) = wo_fs f"
| "Sys (RWN f) = rw_fs f"

fun SetSys :: "'d Node \<Rightarrow> FileSystem_ref option \<Rightarrow> nat \<Rightarrow> 'd Node \<times> nat" where
  "SetSys (DirN d) filesys t = (let (d', t') = Dir_SetSys d filesys t in (DirN d', t'))"
| "SetSys (RON f) filesys t = (let (f', t') = RO_SetSys f filesys t in (RON f', t'))"
| "SetSys (WON f) filesys t = (let (f', t') = WO_SetSys f filesys t in (WON f', t'))"
| "SetSys (RWN f) filesys t = (let (f', t') = RW_SetSys f filesys t in (RWN f', t'))"

section \<open>The file system (fs.go)\<close>

record 'd FileSystem =
  self :: FileSystem_ref
  root :: "'d Dir"
  ticks :: nat

subsection \<open>sync\<close>

text \<open>
  \<^verbatim>\<open>fs.sync(n)\<close> rebinds \<^verbatim>\<open>n\<close> when its pointer differs from \<^verbatim>\<open>fs\<close>, and, when \<^verbatim>\<open>n\<close> is a
  directory, goes on through its children. The receiver may be \<^verbatim>\<open>nil\<close> (it is \<^verbatim>\<open>nofs\<close>
  in \<^verbatim>\<open>Unbind\<close>). \<open>sync_dir\<close> is the directory branch and \<open>sync_files\<close> the range loop.
\<close>

fun sync :: "FileSystem_ref option \<Rightarrow> 'd Node \<Rightarrow> nat \<Rightarrow> 'd Node \<times> nat"
  and sync_dir :: "FileSystem_ref option \<Rightarrow> 'd Dir \<Rightarrow> nat \<Rightarrow> 'd Dir \<times> nat"
  and sync_files ::
    "FileSystem_ref option \<Rightarrow> (string \<times> 'd Node) list \<Rightarrow> nat \<Rightarrow> (string \<times> 'd Node) list \<times> nat"
where
  "sync fs (DirN d) t = (let (d', t') = sync_dir fs d t in (DirN d', t'))"
| "sync fs (RON f) t =
     (if Sys (RON f) \<noteq> ptr fs then SetSys (RON f) fs t else (RON f, t))"
| "sync fs (WON f) t =
     (if Sys (WON f) \<noteq> ptr fs then SetSys (WON f) fs t else (WON f, t))"
| "sync fs (RWN f) t =
     (if Sys (RWN f) \<noteq> ptr fs then SetSys (RWN f) fs t else (RWN f, t))"
| "sync_dir fs (Dir nm a fl p) t =
     (let (d1, t1) =
        (if p \<noteq> ptr fs then Dir_SetSys (Dir nm a fl p) fs t else (Dir nm a fl p, t));
          (fl', t2) = sync_files fs fl t1
      in (Dir (dir_name d1) (dir_attr d1) fl' (dir_fs d1), t2))"
| "sync_files fs [] t = ([], t)"
| "sync_files fs ((k, n) # rest) t =
     (let (n', t1) = sync fs n t;
          (rest', t2) = sync_files fs rest t1
      in ((k, n') # rest', t2))"

definition Sync :: "'d FileSystem \<Rightarrow> 'd FileSystem" where
  "Sync fs =
     (let (d, t) = sync_dir (Some (self fs)) (root fs) (ticks fs)
      in fs\<lparr>root := d, ticks := t\<rparr>)"

text \<open>\<^verbatim>\<open>Dir.With\<close> and \<^verbatim>\<open>FileSystem.With\<close>.\<close>

fun Dir_With :: "'d Dir \<Rightarrow> 'd Node list \<Rightarrow> 'd Dir" where
  "Dir_With d [] = d"
| "Dir_With d (n # ns) =
     Dir_With (Dir (dir_name d) (dir_attr d) (AList.update (Name n) n (files d)) (dir_fs d)) ns"

definition With :: "'d FileSystem \<Rightarrow> 'd Node list \<Rightarrow> 'd FileSystem" where
  "With fs ns = fs\<lparr>root := Dir_With (root fs) ns\<rparr>"

text \<open>The node itself and every node below it.\<close>

fun subnodes :: "'d Node \<Rightarrow> 'd Node list"
  and subnodes_files :: "(string \<times> 'd Node) list \<Rightarrow> 'd Node list"
where
  "subnodes (DirN (Dir nm a fl p)) = DirN (Dir nm a fl p) # subnodes_files fl"
| "subnodes (RON f) = [RON f]"
| "subnodes (WON f) = [WON f]"
| "subnodes (RWN f) = [RWN f]"
| "subnodes_files [] = []"
| "subnodes_files ((k, n) # rest) = subnodes n @ subnodes_files rest"

subsection \<open>Paths\<close>

text \<open>
  Three functions of Go's standard library, on Unix paths. \<^verbatim>\<open>strings.Split(s, "/")\<close>
  cuts \<^verbatim>\<open>s\<close> at every separator, so its result is never empty.
\<close>

fun strings_Split :: "string \<Rightarrow> string list" where
  "strings_Split [] = [[]]"
| "strings_Split (c # cs) =
     (if c = Separator then [] # strings_Split cs
      else (case strings_Split cs of [] \<Rightarrow> [[c]] | w # ws \<Rightarrow> (c # w) # ws))"

fun join_sep :: "string list \<Rightarrow> string" where
  "join_sep [] = []"
| "join_sep [x] = x"
| "join_sep (x # y # zs) = x @ Separator # join_sep (y # zs)"

text \<open>
  \<^verbatim>\<open>filepath.Clean\<close> reads the path element by element: an empty element and \<^verbatim>\<open>.\<close> are
  dropped; \<^verbatim>\<open>..\<close> removes the element written before it, is dropped at the root of a
  rooted path, and is kept at the start of a path that is not rooted; the empty result
  is \<^verbatim>\<open>.\<close>. \<open>out\<close> is the elements written so far, the last one first.
\<close>

fun clean_elements :: "bool \<Rightarrow> string list \<Rightarrow> string list \<Rightarrow> string list" where
  "clean_elements rooted out [] = rev out"
| "clean_elements rooted out (e # es) =
     (if e = [] \<or> e = ''.'' then clean_elements rooted out es
      else if e = ''..'' then
        (case out of
           [] \<Rightarrow> if rooted then clean_elements rooted [] es
                 else clean_elements rooted [''..''] es
         | x # xs \<Rightarrow> if x = ''..'' then clean_elements rooted (''..'' # out) es
                     else clean_elements rooted xs es)
      else clean_elements rooted (e # out) es)"

definition Clean :: "string \<Rightarrow> string" where
  "Clean path =
     (if path = [] then ''.''
      else
        (let rooted = (hd path = Separator);
             body = join_sep (clean_elements rooted [] (strings_Split path))
         in if rooted then Separator # body
            else if body = [] then ''.'' else body))"

text \<open>\<^verbatim>\<open>filepath.Split\<close> cuts the path after its last separator.\<close>

definition Split :: "string \<Rightarrow> string \<times> string" where
  "Split path =
     (let file = rev (takeWhile (\<lambda>c. c \<noteq> Separator) (rev path))
      in (take (length path - length file) path, file))"

text \<open>
  \<^verbatim>\<open>pathElements\<close>: \<^verbatim>\<open>[1:]\<close> drops the first piece, which exists since the split is not
  empty.
\<close>

definition pathElements :: "string \<Rightarrow> string list" where
  "pathElements path =
     (let e = tl (strings_Split (Clean path))
      in if length e = 1 \<and> length (e ! 0) = 0 then [] else e)"

subsection \<open>walkPath\<close>

text \<open>
  The loop of \<^verbatim>\<open>walkPath\<close> over the elements that are left: the element is the last one
  (\<^verbatim>\<open>i == len(elements)-1\<close>) when no element follows it. The loop is entered with at
  least one element, and the statement after it is the panic \<^verbatim>\<open>cannot reach\<close>.
\<close>

fun walk :: "'d Dir \<Rightarrow> string \<Rightarrow> string \<Rightarrow> string list \<Rightarrow> ('d Node option \<times> error option) outcome" where
  "walk d op path [] = Panic"
| "walk d op path (e # es) =
     (case map_of (files d) e of
        None \<Rightarrow>
          (if es \<noteq> [] then Return (None, Some (PathError op path ENOENT))
           else Return (Some (DirN d), Some (PathError op path ENOENT)))
      | Some n \<Rightarrow>
          (if es = [] then Return (Some n, None)
           else
             (case n of
                DirN d' \<Rightarrow> walk d' op path es
              | _ \<Rightarrow> Return (None, Some (PathError op path ENOTDIR)))))"

definition walkPath :: "'d Dir \<Rightarrow> string \<Rightarrow> string \<Rightarrow> ('d Node option \<times> error option) outcome" where
  "walkPath d op path =
     (let elements = pathElements path
      in if length elements = 0 then Return (Some (DirN d), None)
         else walk d op path elements)"

text \<open>\<^verbatim>\<open>os.IsNotExist\<close> looks through a \<^verbatim>\<open>*PathError\<close> for \<^verbatim>\<open>ENOENT\<close>.\<close>

fun IsNotExist :: "error option \<Rightarrow> bool" where
  "IsNotExist (Some (PathError op path e)) = (e = ENOENT)"
| "IsNotExist (Some (Errno e)) = (e = ENOENT)"
| "IsNotExist _ = False"

subsection \<open>Bind and Unbind\<close>

text \<open>
  \<^verbatim>\<open>walkPath\<close> returns a pointer into the tree and its callers write through the
  pointer. On values, the directory found under the elements of the path is put back
  where it was found.
\<close>

fun replace_at :: "string list \<Rightarrow> 'd Dir \<Rightarrow> 'd Dir \<Rightarrow> 'd Dir" where
  "replace_at [] new d = new"
| "replace_at (e # es) new (Dir nm a fl p) =
     Dir nm a
       (case map_of fl e of
          Some (DirN c) \<Rightarrow> AList.update e (DirN (replace_at es new c)) fl
        | _ \<Rightarrow> fl)
       p"

text \<open>
  \<^verbatim>\<open>fs.bind(dir, n)\<close>. The type assertion \<^verbatim>\<open>d.(*Dir)\<close> has no \<^verbatim>\<open>ok\<close> result, so it panics
  when \<^verbatim>\<open>d\<close> is \<^verbatim>\<open>nil\<close> or is not a directory.
\<close>

definition bind :: "'d FileSystem \<Rightarrow> string \<Rightarrow> 'd Node \<Rightarrow> ('d FileSystem \<times> error option) outcome" where
  "bind fs dir n =
     (let dir1 = Clean dir in
      case walkPath (root fs) ''open'' dir1 of
        Panic \<Rightarrow> Panic
      | Return (d, err) \<Rightarrow>
          (if IsNotExist err then Return (fs, Some (PathError ''open'' dir1 ENOENT))
           else
             (case d of
                Some (DirN dd) \<Rightarrow>
                  (let dd1 = Dir (dir_name dd) (dir_attr dd) (AList.update (Name n) n (files dd))
                               (dir_fs dd);
                       (dd2, t) = sync_dir (Some (self fs)) dd1 (ticks fs)
                   in Return (fs\<lparr>root := replace_at (pathElements dir1) dd2 (root fs), ticks := t\<rparr>,
                              None))
              | _ \<Rightarrow> Panic)))"

definition Bind :: "'d FileSystem \<Rightarrow> string \<Rightarrow> 'd Node \<Rightarrow> ('d FileSystem \<times> error option) outcome" where
  "Bind fs dir n = bind fs dir n"

text \<open>
  \<^verbatim>\<open>fs.Unbind(path)\<close>. In the guard \<^verbatim>\<open>len(path) == 0 && path[0] == filepath.Separator\<close>
  the second operand is evaluated only for the empty string, where the index panics;
  for every other path the guard is false. The result is the file system, the node and
  the error.
\<close>

definition Unbind ::
  "'d FileSystem \<Rightarrow> string \<Rightarrow> ('d FileSystem \<times> 'd Node option \<times> error option) outcome" where
  "Unbind fs path =
     (let path1 = Clean path in
      if length path1 = 0 then Panic
      else
        (let (dir, name) = Split path1 in
         case walkPath (root fs) ''unbind'' dir of
           Panic \<Rightarrow> Panic
         | Return (n, err) \<Rightarrow>
             (if err \<noteq> None then Return (fs, None, err)
              else
                (case n of
                   Some (DirN d) \<Rightarrow>
                     (case map_of (files d) name of
                        None \<Rightarrow> Return (fs, None, Some (PathError ''unbind'' path1 ENOENT))
                      | Some node \<Rightarrow>
                          (let d1 = Dir (dir_name d) (dir_attr d) (AList.delete name (files d))
                                      (dir_fs d);
                               (node1, t) = sync nofs node (ticks fs)
                           in Return (fs\<lparr>root := replace_at (pathElements dir) d1 (root fs),
                                          ticks := t\<rparr>,
                                      Some node1, None)))
                 | _ \<Rightarrow> Panic))))"

section \<open>Notions used to state the properties\<close>

text \<open>
  \<open>descend d es\<close> is the directory reached from \<open>d\<close> through the names \<open>es\<close> when each
  of them names a directory. \<open>consistent fs\<close> says that every node of the tree points to
  \<open>fs\<close>.
\<close>

fun descend :: "'d Dir \<Rightarrow> string list \<Rightarrow> 'd Dir option" where
  "descend d [] = Some d"
| "descend d (e # es) =
     (case map_of (files d) e of
        Some (DirN d') \<Rightarrow> descend d' es
      | _ \<Rightarrow> None)"

fun is_Dir :: "'d Node \<Rightarrow> bool" where
  "is_Dir (DirN d) = True"
| "is_Dir _ = False"

definition consistent :: "'d FileSystem \<Rightarrow> bool" where
  "consistent fs \<longleftrightarrow>
     list_all (\<lambda>m. Sys m = Some (addr (self fs))) (subnodes (DirN (root fs)))"

text \<open>
  The run time accepts what a write allocates: the length \<open>off + len(p)\<close> is within the
  bound, and so is the capacity that \<^verbatim>\<open>append\<close> chooses when the write starts below the
  capacity and ends beyond it.
\<close>

definition allocation_accepted ::
  "nat \<Rightarrow> (nat \<Rightarrow> nat \<Rightarrow> nat) \<Rightarrow> Bytes \<Rightarrow> byte list \<Rightarrow> int \<Rightarrow> bool" where
  "allocation_accepted limit grow f p off \<longleftrightarrow>
     off + int (length p) \<le> int limit \<and>
     (off < int (cap f) \<and> int (cap f) < off + int (length p) \<longrightarrow>
        grow (cap f) (nat off + length p) \<le> limit)"

section \<open>Sample values\<close>

text \<open>
  The bound of the run time on 64-bit Linux, a growth policy that allocates exactly what
  is needed, and a small tree in the shape
  of the package's test: \<^verbatim>\<open>/dev/foo\<close> is a read-write file, \<^verbatim>\<open>/dev/input\<close> a directory
  that holds the directory \<^verbatim>\<open>by-path\<close>. The clock answers \<open>1000\<close>, \<open>1001\<close>, ...
\<close>

definition linux64_limit :: nat where
  "linux64_limit = 2 ^ 48"

definition exact_grow :: "nat \<Rightarrow> nat \<Rightarrow> nat" where
  "exact_grow c n = n"

definition sample_clock :: FileSystem_ref where
  "sample_clock = \<lparr>addr = 1, now = (\<lambda>k. 1000 + int k)\<rparr>"

definition sample_foo :: "Bytes RW" where
  "sample_foo =
     \<lparr>rw_name = ''foo'', rw_attr = attr_of_mode 438, rw_fs = None, rw_dev = bytes_of [1, 2, 3]\<rparr>"

definition sample_input :: "Bytes Dir" where
  "sample_input =
     Dir ''input'' (attr_of_mode ModeDir)
       [(''by-path'', DirN (Dir ''by-path'' (attr_of_mode ModeDir) [] None))] None"

definition sample_dev :: "Bytes Dir" where
  "sample_dev =
     Dir ''dev'' (attr_of_mode ModeDir)
       [(''foo'', RWN sample_foo), (''input'', DirN sample_input)] None"

definition sample_root :: "Bytes Dir" where
  "sample_root = Dir ''/'' (attr_of_mode ModeDir) [(''dev'', DirN sample_dev)] None"

definition sample_fs :: "Bytes FileSystem" where
  "sample_fs = \<lparr>self = sample_clock, root = sample_root, ticks = 0\<rparr>"

definition sample_wo :: "Bytes WO" where
  "sample_wo = NewWO ''command'' 146 (bytes_of [1, 2, 3])"

definition sample_req :: SetattrRequest where
  "sample_req =
     \<lparr>req_Valid = SetattrSize OR SetattrMode OR SetattrUid, req_Size = 10, req_Mode = 420,
      req_Uid = 7, req_Gid = 0, req_Atime = 0, req_Mtime = 0\<rparr>"

definition sample_resp :: SetattrResponse where
  "sample_resp =
     \<lparr>Attr_Size = 0, Attr_Mode = 0, Attr_Uid = 0, Attr_Gid = 0, Attr_Atime = 0,
      Attr_Mtime = 0, Attr_Ctime = 0\<rparr>"

section \<open>Node construction\<close>

lemma NewDir_succeeds_iff:
  "(\<exists>d. (NewDir name m :: error + 'd Dir) = Inr d) \<longleftrightarrow> (name = ''/'' \<or> \<not> Contains_Separator name)"
  by (auto simp: NewDir_def)

lemma NewDir_fails_BadName:
  "(NewDir name m :: error + 'd Dir) = Inl e \<Longrightarrow> e = ErrBadName"
  by (auto simp: NewDir_def split: if_splits)

lemma NewRO_succeeds_iff:
  "(\<exists>f. NewRO name m dev = Inr f) \<longleftrightarrow> \<not> Contains_Separator name"
  by (auto simp: NewRO_def)

lemma NewRW_succeeds_iff:
  "(\<exists>f. NewRW name m dev = Inr f) \<longleftrightarrow> \<not> Contains_Separator name"
  by (auto simp: NewRW_def)

text \<open>
  Claim C1. Every constructor (directory, read-only, write-only, read-write file)
  succeeds on a name without the separator and fails with \<^verbatim>\<open>ErrBadName\<close> on a name that
  contains it (the root name \<^verbatim>\<open>/\<close> of a directory apart). \<^verbatim>\<open>NewDir\<close>, \<^verbatim>\<open>NewRO\<close> and \<^verbatim>\<open>NewRW\<close>
  do so; \<^verbatim>\<open>NewWO\<close> has no check and no error result: on the name \<^verbatim>\<open>a/b\<close>, which the other
  three refuse, it returns a node of that name.
\<close>

theorem NewWO_accepts_separator:
  "Contains_Separator ''a/b'' \<and>
   NewWO ''a/b'' m dev =
     \<lparr>wo_name = ''a/b'', wo_attr = attr_of_mode (m AND NOT (ModeDir OR 292)),
      wo_fs = None, wo_dev = dev\<rparr> \<and>
   NewRO ''a/b'' m dev = Inl ErrBadName \<and>
   NewRW ''a/b'' m dev = Inl ErrBadName \<and>
   (NewDir ''a/b'' m :: error + 'd Dir) = Inl ErrBadName"
  by (simp add: NewWO_def NewRW_def NewRO_def NewDir_def Contains_Separator_def Separator_def)

section \<open>The data backends\<close>

subsection \<open>ReadAt\<close>

lemma Bytes_ReadAt_nil_only_empty:
  "Bytes_ReadAt f b off = Return (b', n, None) \<Longrightarrow> b = []"
  by (auto simp: Bytes_ReadAt_def copy_def Let_def split: if_splits)

lemma String_ReadAt_never_nil:
  "String_ReadAt s b off \<noteq> (b', n, None)"
  by (auto simp: String_ReadAt_def copy_def Let_def split: if_splits)

text \<open>
  Claim C3. \<^verbatim>\<open>ReadAt\<close> of \<^verbatim>\<open>Bytes\<close> and of \<^verbatim>\<open>String\<close> reports the end of the data exactly
  when the offset reaches the length or the bytes returned end at the last byte; a read
  that ends before the last byte reports no end of data. The code tests \<^verbatim>\<open>n <= len(b)\<close>,
  which holds for every result of \<^verbatim>\<open>copy\<close>, so the end of data is reported after every
  copy: reading two bytes at offset 0 of five bytes returns them together with \<^verbatim>\<open>io.EOF\<close>.
\<close>

theorem ReadAt_inside_reports_EOF:
  "Bytes_ReadAt (bytes_of [1, 2, 3, 4, 5]) [0, 0] 0 = Return ([1, 2], 2, Some EOF) \<and>
   String_ReadAt [1, 2, 3, 4, 5] [0, 0] 0 = ([1, 2], 2, Some EOF)"
  by (simp add: Bytes_ReadAt_def String_ReadAt_def bytes_of_def copy_def contents_def)

subsection \<open>WriteAt\<close>

lemma wrap64_id: "0 \<le> x \<Longrightarrow> x \<le> max_int64 \<Longrightarrow> wrap64 x = x"
  by (simp add: wrap64_def max_int64_def)

lemma append_bytes_inplace:
  assumes "slen s + length b \<le> cap s"
  shows "\<exists>s'. append_bytes limit grow s b = Return s' \<and> slen s' = slen s + length b \<and>
              contents s' = contents s @ b"
  using assms by (auto simp: append_bytes_def Let_def contents_def cap_def)

lemma append_bytes_grown:
  assumes "cap s < slen s + length b" and "slen s \<le> cap s"
    and "slen s + length b \<le> limit" and "grow (cap s) (slen s + length b) \<le> limit"
  shows "\<exists>s'. append_bytes limit grow s b = Return s' \<and> slen s' = slen s + length b \<and>
              contents s' = contents s @ b"
  using assms by (auto simp: append_bytes_def Let_def contents_def cap_def)

text \<open>
  At or beyond the capacity the write allocates: the old bytes, zeros up to the offset,
  then the new bytes.
\<close>

lemma WriteAt_realloc:
  assumes "int (cap f) \<le> off" "off + int (length p) \<le> int limit" "int limit \<le> max_int64"
    and "wf_Bytes f"
  shows "Bytes_WriteAt limit grow f p off =
           (case append_bytes limit grow
                   \<lparr>backing = contents f @ replicate (nat off + length p - slen f) 0,
                    slen = nat off\<rparr> p of
              Panic \<Rightarrow> Panic
            | Return f3 \<Rightarrow> Return (f3, length p, None))"
proof -
  have w: "slen f \<le> length (backing f)" using assms by (simp add: wf_Bytes_def)
  have l: "slen f \<le> nat off" using assms by (simp add: wf_Bytes_def cap_def)
  have o: "0 \<le> off" using assms by linarith
  have n: "wrap64 (off + int (length p)) = off + int (length p)"
    using assms o by (intro wrap64_id) auto
  have m: "min (nat off + length p) (slen f) = slen f" using l by simp
  have k: "nat (off + int (length p)) = nat off + length p" using o by (simp add: nat_add_distrib)
  have mk: "make_bytes limit (off + int (length p)) = Return (replicate (nat off + length p) 0)"
    using assms(2) o k by (simp add: make_bytes_def)
  have c: "copy (replicate (nat off + length p) 0) (contents f)
             = (contents f @ replicate (nat off + length p - slen f) 0, slen f)"
    using w m by (simp add: copy_def contents_def Let_def min_absorb1)
  have h: "\<not> off > int (slen f + (nat off + length p - slen f))" using l o by linarith
  have lc: "length (contents f) = slen f" using w by (simp add: contents_def)
  show ?thesis
    using assms(1) o h l
    by (simp add: Bytes_WriteAt_def n mk c cap_def lc)
qed

text \<open>Below the capacity the write re-slices the array in place.\<close>

lemma WriteAt_inplace:
  assumes "0 \<le> off" "off < int (cap f)"
  shows "Bytes_WriteAt limit grow f p off =
           (case append_bytes limit grow (f\<lparr>slen := nat off\<rparr>) p of
              Panic \<Rightarrow> Panic
            | Return f3 \<Rightarrow> Return (f3, length p, None))"
  using assms by (simp add: Bytes_WriteAt_def cap_def Let_def)

lemma WriteAt_beyond_capacity_zero_gap:
  assumes "int (cap f) \<le> off" "off + int (length p) \<le> int limit" "int limit \<le> max_int64"
    and "wf_Bytes f"
  shows "\<exists>f'. Bytes_WriteAt limit grow f p off = Return (f', length p, None) \<and>
              slen f' = nat off + length p \<and>
              contents f' = contents f @ replicate (nat off - slen f) 0 @ p"
proof -
  let ?s = "\<lparr>backing = contents f @ replicate (nat off + length p - slen f) 0, slen = nat off\<rparr>"
  have l: "slen f \<le> nat off" using assms by (simp add: wf_Bytes_def cap_def)
  have lc: "length (contents f) = slen f" using assms by (simp add: contents_def wf_Bytes_def)
  have c: "slen ?s + length p \<le> cap ?s" using l lc by (simp add: cap_def)
  obtain s' where a: "append_bytes limit grow ?s p = Return s'"
    and sl: "slen s' = slen ?s + length p" and ct: "contents s' = contents ?s @ p"
    using append_bytes_inplace[OF c, of limit grow] by blast
  have "contents ?s = contents f @ replicate (nat off - slen f) 0"
    using l lc by (simp add: contents_def)
  then show ?thesis
    using WriteAt_realloc[OF assms, of grow] a sl ct by simp
qed

text \<open>A write that needs more than the bound panics in \<^verbatim>\<open>make\<close>.\<close>

lemma WriteAt_beyond_limit_panics:
  assumes "int (cap f) \<le> off" and "int limit < off + int (length p)"
    and "off + int (length p) \<le> max_int64"
  shows "Bytes_WriteAt limit grow f p off = Panic"
proof -
  have "0 \<le> off + int (length p)" using assms(1) by linarith
  then have "wrap64 (off + int (length p)) = off + int (length p)"
    using assms(3) by (rule wrap64_id)
  then show ?thesis using assms by (simp add: Bytes_WriteAt_def make_bytes_def)
qed

text \<open>
  Claim C4. In every reachable state of a \<^verbatim>\<open>Bytes\<close>, a write at an offset beyond the
  current length followed by a read over the gap returns zeros for the gap and then the
  written bytes. The gap is zero when the offset is at or beyond the capacity
  (\<open>WriteAt_beyond_capacity_zero_gap\<close>). Between the length and the capacity the write
  re-slices the array and shows what the array holds there: after \<^verbatim>\<open>NewBytes\<close> of five
  bytes and a write of one byte at offset 0, which leaves the length 1 and the array
  untouched behind it, a write at offset 3 leaves the old bytes 2 and 3 in the gap.
  Neither write allocates, so this is so on every platform.
\<close>

theorem WriteAt_gap_shows_stale_bytes:
  "Bytes_WriteAt limit grow (NewBytes (bytes_of [1, 2, 3, 4, 5])) [9] 0 =
     Return (\<lparr>backing = [9, 2, 3, 4, 5], slen = 1\<rparr>, 1, None) \<and>
   Bytes_WriteAt limit grow \<lparr>backing = [9, 2, 3, 4, 5], slen = 1\<rparr> [7] 3 =
     Return (\<lparr>backing = [9, 2, 3, 7, 5], slen = 4\<rparr>, 1, None) \<and>
   Bytes_ReadAt \<lparr>backing = [9, 2, 3, 7, 5], slen = 4\<rparr> [0, 0, 0] 1 =
     Return ([2, 3, 7], 3, Some EOF)"
  by (simp add: Bytes_WriteAt_def Bytes_ReadAt_def NewBytes_def bytes_of_def cap_def
      append_bytes_def copy_def contents_def)

text \<open>
  Claim C10, as amended. For a well-formed \<^verbatim>\<open>Bytes\<close>, bytes \<open>p\<close> and an offset \<open>off \<ge> 0\<close>
  such that the run time accepts what the write allocates (\<open>allocation_accepted\<close>, with a
  bound that an \<^verbatim>\<open>int64\<close> holds), \<^verbatim>\<open>WriteAt\<close> returns \<open>(len(p), nil)\<close> and leaves the length
  \<open>off + len(p)\<close>: the bytes are those before \<open>off\<close> followed by \<open>p\<close>, so a write below the
  current length drops everything the buffer held from \<open>off + len(p)\<close> on.
\<close>

theorem Bytes_WriteAt_result:
  assumes "0 \<le> off" and "allocation_accepted limit grow f p off"
    and "int limit \<le> max_int64" and "wf_Bytes f"
  shows "\<exists>f'. Bytes_WriteAt limit grow f p off = Return (f', length p, None)
            \<and> Bytes_Size f' = (off + int (length p), None)
            \<and> contents f' =
                (if off \<le> int (slen f) then take (nat off) (contents f)
                 else if off < int (cap f) then take (nat off) (backing f)
                 else contents f @ replicate (nat off - slen f) 0) @ p"
proof (cases "off < int (cap f)")
  case True
  let ?s = "f\<lparr>slen := nat off\<rparr>"
  have le: "off + int (length p) \<le> int limit"
    using assms(2) by (simp add: allocation_accepted_def)
  have ex: "\<exists>s'. append_bytes limit grow ?s p = Return s' \<and> slen s' = slen ?s + length p \<and>
              contents s' = contents ?s @ p"
  proof (cases "slen ?s + length p \<le> cap ?s")
    case True
    then show ?thesis by (rule append_bytes_inplace)
  next
    case False
    then have g: "cap ?s < slen ?s + length p" by simp
    have c: "slen ?s \<le> cap ?s" using \<open>off < int (cap f)\<close> assms(1) by (simp add: cap_def)
    have n: "slen ?s + length p \<le> limit" using le assms(1) by simp
    have "int (cap f) < off + int (length p)" using g assms(1) by (simp add: cap_def)
    then have "grow (cap f) (nat off + length p) \<le> limit"
      using assms(2) \<open>off < int (cap f)\<close> by (simp add: allocation_accepted_def)
    then have gr: "grow (cap ?s) (slen ?s + length p) \<le> limit" by (simp add: cap_def)
    show ?thesis
      using g c n gr by (rule append_bytes_grown[where s = "?s" and b = p])
  qed
  then obtain s' where a: "append_bytes limit grow ?s p = Return s'"
    and sl: "slen s' = slen ?s + length p" and ct: "contents s' = contents ?s @ p"
    by blast
  have cs: "contents ?s = take (nat off) (backing f)" by (simp add: contents_def)
  have tk: "take (nat off) (contents f) = take (nat off) (backing f)"
    if "off \<le> int (slen f)"
  proof -
    have "nat off \<le> slen f" using that assms(1) by linarith
    then show ?thesis by (simp add: contents_def min_absorb2)
  qed
  show ?thesis
    using True assms(1) WriteAt_inplace[of off f limit grow p] a sl ct cs tk
    by (auto simp: Bytes_Size_def)
next
  case False
  then have rl: "int (cap f) \<le> off" by simp
  have le: "off + int (length p) \<le> int limit"
    using assms(2) by (simp add: allocation_accepted_def)
  have l: "slen f \<le> nat off" using False assms by (simp add: wf_Bytes_def cap_def)
  have lc: "length (contents f) = slen f" using assms by (simp add: contents_def wf_Bytes_def)
  obtain f' where w: "Bytes_WriteAt limit grow f p off = Return (f', length p, None)"
    and s: "slen f' = nat off + length p"
    and c: "contents f' = contents f @ replicate (nat off - slen f) 0 @ p"
    using WriteAt_beyond_capacity_zero_gap[OF rl le assms(3,4), of grow] by blast
  have "take (nat off) (contents f) = contents f @ replicate (nat off - slen f) 0"
    if "off \<le> int (slen f)"
    using that l lc by simp
  then show ?thesis
    using False assms(1) w c s by (auto simp: Bytes_Size_def)
qed

text \<open>
  A write of one byte at offset 2 of five bytes stays in the array and drops the bytes
  behind it; a write of two bytes at offset 4 makes \<^verbatim>\<open>append\<close> allocate.
\<close>

theorem Bytes_WriteAt_result_witness:
  "(0::int) \<le> 2 \<and> allocation_accepted linux64_limit exact_grow (bytes_of [1, 2, 3, 4, 5]) [9] 2 \<and>
   (0::int) \<le> 4 \<and> allocation_accepted linux64_limit exact_grow (bytes_of [1, 2, 3, 4, 5]) [9, 8] 4 \<and>
   int linux64_limit \<le> max_int64 \<and> wf_Bytes (bytes_of [1, 2, 3, 4, 5]) \<and>
   (\<exists>f'. Bytes_WriteAt linux64_limit exact_grow (bytes_of [1, 2, 3, 4, 5]) [9] 2 =
            Return (f', 1, None) \<and>
         Bytes_Size f' = (3, None) \<and> contents f' = [1, 2, 9]) \<and>
   (\<exists>f'. Bytes_WriteAt linux64_limit exact_grow (bytes_of [1, 2, 3, 4, 5]) [9, 8] 4 =
            Return (f', 2, None) \<and>
         Bytes_Size f' = (6, None) \<and> contents f' = [1, 2, 3, 4, 9, 8])"
proof -
  have a: "(0::int) \<le> 2" "(0::int) \<le> 4" by simp_all
  have b1: "allocation_accepted linux64_limit exact_grow (bytes_of [1, 2, 3, 4, 5]) [9] 2"
    by (simp add: allocation_accepted_def linux64_limit_def bytes_of_def cap_def)
  have b2: "allocation_accepted linux64_limit exact_grow (bytes_of [1, 2, 3, 4, 5]) [9, 8] 4"
    by (simp add: allocation_accepted_def linux64_limit_def exact_grow_def bytes_of_def cap_def)
  have m: "int linux64_limit \<le> max_int64" by (simp add: linux64_limit_def max_int64_def)
  have c: "wf_Bytes (bytes_of [1, 2, 3, 4, 5])" by (simp add: wf_Bytes_def bytes_of_def)
  have r1: "\<exists>f'. Bytes_WriteAt linux64_limit exact_grow (bytes_of [1, 2, 3, 4, 5]) [9] 2 =
            Return (f', 1, None) \<and> Bytes_Size f' = (3, None) \<and> contents f' = [1, 2, 9]"
    using Bytes_WriteAt_result[OF a(1) b1 m c] by (simp add: bytes_of_def contents_def)
  have r2: "\<exists>f'. Bytes_WriteAt linux64_limit exact_grow (bytes_of [1, 2, 3, 4, 5]) [9, 8] 4 =
            Return (f', 2, None) \<and> Bytes_Size f' = (6, None) \<and> contents f' = [1, 2, 3, 4, 9, 8]"
    using Bytes_WriteAt_result[OF a(2) b2 m c]
    by (simp add: bytes_of_def contents_def numeral_2_eq_2)
  show ?thesis using a b1 b2 m c r1 r2 by (intro conjI)
qed

text \<open>
  The claim as it is stated, for every offset \<open>off \<ge> 0\<close>, fails where the write asks for
  more than the run time allocates: at offset \<open>2 ^ 62\<close> \<^verbatim>\<open>make\<close> refuses the length, and at
  the largest \<^verbatim>\<open>int64\<close> the sum \<^verbatim>\<open>off+int64(len(b))\<close> overflows and is negative.
\<close>

theorem Bytes_WriteAt_overflow_panics:
  "(0::int) \<le> 2 ^ 62 \<and>
   Bytes_WriteAt linux64_limit exact_grow (bytes_of []) [1] (2 ^ 62) = Panic \<and>
   0 \<le> max_int64 \<and>
   Bytes_WriteAt linux64_limit exact_grow (bytes_of []) [1] max_int64 = Panic"
  by (simp add: Bytes_WriteAt_def make_bytes_def bytes_of_def cap_def wrap64_def max_int64_def
      linux64_limit_def)

section \<open>Setattr\<close>

text \<open>
  Claim C8. \<^verbatim>\<open>Setattr\<close> of a read-write or write-only file: when the request carries a
  size and the backend's \<^verbatim>\<open>Truncate\<close> fails, \<^verbatim>\<open>Setattr\<close> returns that error and the node's
  attribute record is unchanged; no other field of the request is merged, and the
  response is unchanged too. The backend is any implementation of the interface.
\<close>

theorem Setattr_truncate_failure:
  assumes "req_Valid req AND SetattrSize \<noteq> 0"
    and "Truncate opsr (rw_dev f) (sint (req_Size req)) = (d1, Some e1)"
    and "Truncate opsw (wo_dev g) (sint (req_Size req)) = (d2, Some e2)"
  shows "RW_Setattr opsr f req resp = (f\<lparr>rw_dev := d1\<rparr>, resp, Some e1) \<and>
         rw_attr (fst (RW_Setattr opsr f req resp)) = rw_attr f \<and>
         WO_Setattr opsw g req resp = (g\<lparr>wo_dev := d2\<rparr>, resp, Some e2) \<and>
         wo_attr (fst (WO_Setattr opsw g req resp)) = wo_attr g"
  using assms by (simp add: RW_Setattr_def WO_Setattr_def)

text \<open>
  A request for size 10, a mode and a uid on files backed by three bytes: \<^verbatim>\<open>Truncate\<close>
  refuses to grow, and mode and uid stay as they were.
\<close>

theorem Setattr_truncate_failure_witness:
  "req_Valid sample_req AND SetattrSize \<noteq> 0 \<and> req_Valid sample_req AND SetattrMode \<noteq> 0 \<and>
   RW_Setattr (Bytes_ReadWriter linux64_limit exact_grow) sample_foo sample_req sample_resp =
     (sample_foo, sample_resp, Some (Errno EINVAL)) \<and>
   WO_Setattr (Bytes_ReadWriter linux64_limit exact_grow) sample_wo sample_req sample_resp =
     (sample_wo, sample_resp, Some (Errno EINVAL))"
proof -
  have v: "req_Valid sample_req AND SetattrSize \<noteq> 0" "req_Valid sample_req AND SetattrMode \<noteq> 0"
    by (simp_all add: sample_req_def SetattrSize_def SetattrMode_def SetattrUid_def)
  have t1: "Truncate (Bytes_ReadWriter linux64_limit exact_grow) (rw_dev sample_foo) (sint (req_Size sample_req))
              = (bytes_of [1, 2, 3], Some (Errno EINVAL))"
    by (simp add: Bytes_ReadWriter_def Bytes_Truncate_def sample_req_def bytes_of_def
        sample_foo_def)
  have t2: "Truncate (Bytes_ReadWriter linux64_limit exact_grow) (wo_dev sample_wo) (sint (req_Size sample_req))
              = (bytes_of [1, 2, 3], Some (Errno EINVAL))"
    by (simp add: Bytes_ReadWriter_def Bytes_Truncate_def sample_req_def bytes_of_def
        sample_wo_def NewWO_def)
  have d: "sample_foo\<lparr>rw_dev := bytes_of [1, 2, 3]\<rparr> = sample_foo"
          "sample_wo\<lparr>wo_dev := bytes_of [1, 2, 3]\<rparr> = sample_wo"
    by (simp_all add: sample_foo_def sample_wo_def NewWO_def)
  show ?thesis
    using Setattr_truncate_failure[OF v(1) t1 t2, of sample_resp] v d by simp
qed

section \<open>Path resolution\<close>

text \<open>The model of \<^verbatim>\<open>filepath.Clean\<close> on examples of its documented rules.\<close>

lemma Clean_examples:
  "Clean [] = ''.''"
  "Clean ''a//b/./c/..'' = ''a/b''"
  "Clean ''/../a/b/../c/'' = ''/a/c''"
  "Clean ''../../a/..'' = ''../..''"
  "Clean ''a/..'' = ''.''"
  by (simp_all add: Clean_def Separator_def)

lemma Clean_root: "Clean ''/'' = ''/''"
  by (simp add: Clean_def Separator_def)

lemma Split_root: "Split ''/'' = (''/'', [])"
  by (simp add: Split_def Separator_def)

lemma pathElements_root: "pathElements ''/'' = []"
  by (simp add: pathElements_def Clean_root Separator_def)

lemma walkPath_root: "walkPath d op ''/'' = Return (Some (DirN d), None)"
  by (simp add: walkPath_def pathElements_root)

text \<open>The loop walks through a prefix of directories without returning.\<close>

lemma walk_descend:
  "descend d pre = Some d' \<Longrightarrow> rest \<noteq> [] \<Longrightarrow>
     walk d op path (pre @ rest) = walk d' op path rest"
proof (induction pre arbitrary: d)
  case Nil
  then show ?case by simp
next
  case (Cons e pre)
  then obtain c where c: "map_of (files d) e = Some (DirN c)" "descend c pre = Some d'"
    by (auto split: option.splits Node.splits)
  then show ?case using Cons.IH[OF c(2) Cons.prems(2)] Cons.prems(2) by simp
qed

text \<open>
  Claim C5. \<^verbatim>\<open>walkPath\<close>, on any tree and path: with no elements it returns the root
  directory and no error; when an element that is not the last one is missing it returns
  no node and \<^verbatim>\<open>ENOENT\<close>; when an element that is not the last one is not a directory it
  returns no node and \<^verbatim>\<open>ENOTDIR\<close>; when the last element is missing it returns the
  directory that would hold it, together with \<^verbatim>\<open>ENOENT\<close>. The elements before the one in
  question name directories (\<open>descend\<close>).
\<close>

theorem walkPath_cases:
  "(pathElements path = [] \<longrightarrow> walkPath d op path = Return (Some (DirN d), None)) \<and>
   (pathElements path = pre @ e # rest \<and> rest \<noteq> [] \<and> descend d pre = Some d' \<and>
      map_of (files d') e = None \<longrightarrow>
        walkPath d op path = Return (None, Some (PathError op path ENOENT))) \<and>
   (pathElements path = pre @ e # rest \<and> rest \<noteq> [] \<and> descend d pre = Some d' \<and>
      map_of (files d') e = Some n \<and> \<not> is_Dir n \<longrightarrow>
        walkPath d op path = Return (None, Some (PathError op path ENOTDIR))) \<and>
   (pathElements path = pre @ [e] \<and> descend d pre = Some d' \<and> map_of (files d') e = None \<longrightarrow>
        walkPath d op path = Return (Some (DirN d'), Some (PathError op path ENOENT)))"
proof (intro conjI impI)
  assume "pathElements path = []"
  then show "walkPath d op path = Return (Some (DirN d), None)"
    by (simp add: walkPath_def)
next
  assume a: "pathElements path = pre @ e # rest \<and> rest \<noteq> [] \<and> descend d pre = Some d' \<and>
      map_of (files d') e = None"
  then have "walk d op path (pre @ e # rest) = walk d' op path (e # rest)"
    by (intro walk_descend) auto
  with a show "walkPath d op path = Return (None, Some (PathError op path ENOENT))"
    by (simp add: walkPath_def)
next
  assume a: "pathElements path = pre @ e # rest \<and> rest \<noteq> [] \<and> descend d pre = Some d' \<and>
      map_of (files d') e = Some n \<and> \<not> is_Dir n"
  then have "walk d op path (pre @ e # rest) = walk d' op path (e # rest)"
    by (intro walk_descend) auto
  with a show "walkPath d op path = Return (None, Some (PathError op path ENOTDIR))"
    by (cases n) (simp_all add: walkPath_def)
next
  assume a: "pathElements path = pre @ [e] \<and> descend d pre = Some d' \<and>
      map_of (files d') e = None"
  then have "walk d op path (pre @ [e]) = walk d' op path [e]"
    by (intro walk_descend) auto
  with a show "walkPath d op path = Return (Some (DirN d'), Some (PathError op path ENOENT))"
    by (simp add: walkPath_def)
qed

theorem walkPath_cases_witness:
  "walkPath sample_root ''open'' ''/'' = Return (Some (DirN sample_root), None) \<and>
   walkPath sample_root ''open'' ''/dev/nope/bar'' =
     Return (None, Some (PathError ''open'' ''/dev/nope/bar'' ENOENT)) \<and>
   walkPath sample_root ''open'' ''/dev/foo/bar'' =
     Return (None, Some (PathError ''open'' ''/dev/foo/bar'' ENOTDIR)) \<and>
   walkPath sample_root ''open'' ''/dev/nope'' =
     Return (Some (DirN sample_dev), Some (PathError ''open'' ''/dev/nope'' ENOENT))"
proof -
  have pe1: "pathElements ''/dev/nope/bar'' = [''dev''] @ ''nope'' # [''bar'']"
    by (simp add: pathElements_def Clean_def Separator_def)
  have pe2: "pathElements ''/dev/foo/bar'' = [''dev''] @ ''foo'' # [''bar'']"
    by (simp add: pathElements_def Clean_def Separator_def)
  have pe3: "pathElements ''/dev/nope'' = [''dev''] @ [''nope'']"
    by (simp add: pathElements_def Clean_def Separator_def)
  have de: "descend sample_root [''dev''] = Some sample_dev"
    by (simp add: sample_root_def)
  have f: "map_of (files sample_dev) ''nope'' = None"
          "map_of (files sample_dev) ''foo'' = Some (RWN sample_foo)"
    by (simp_all add: sample_dev_def)
  have 1: "walkPath sample_root ''open'' ''/'' = Return (Some (DirN sample_root), None)"
    using walkPath_cases[of "''/''" sample_root "''open''"] pathElements_root by blast
  have 2: "walkPath sample_root ''open'' ''/dev/nope/bar'' =
             Return (None, Some (PathError ''open'' ''/dev/nope/bar'' ENOENT))"
    using walkPath_cases[of "''/dev/nope/bar''" sample_root "''open''" "[''dev'']" "''nope''"
        "[''bar'']" sample_dev] pe1 de f by simp
  have 3: "walkPath sample_root ''open'' ''/dev/foo/bar'' =
             Return (None, Some (PathError ''open'' ''/dev/foo/bar'' ENOTDIR))"
    using walkPath_cases[of "''/dev/foo/bar''" sample_root "''open''" "[''dev'']" "''foo''"
        "[''bar'']" sample_dev "RWN sample_foo"] pe2 de f by simp
  have 4: "walkPath sample_root ''open'' ''/dev/nope'' =
             Return (Some (DirN sample_dev), Some (PathError ''open'' ''/dev/nope'' ENOENT))"
    using walkPath_cases[of "''/dev/nope''" sample_root "''open''" "[''dev'']" "''nope''" "[]"
        sample_dev] pe3 de f by simp
  show ?thesis using 1 2 3 4 by simp
qed

section \<open>Unbind and Bind on paths they do not expect\<close>

text \<open>
  Claim C2. \<^verbatim>\<open>Unbind\<close> of the root path \<^verbatim>\<open>/\<close> fails with \<^verbatim>\<open>EINVAL\<close>, and neither reports
  \<^verbatim>\<open>ENOENT\<close> nor succeeds. The guard that would say so is never true, so \<^verbatim>\<open>Unbind\<close> goes
  on: the path splits into the directory \<^verbatim>\<open>/\<close> and the empty name, the root is resolved,
  and the empty name is looked up in it. On every file system the result is \<^verbatim>\<open>ENOENT\<close>
  when the root has no child of the empty name, and otherwise that child, unbound.
\<close>

theorem Unbind_root:
  "Unbind fs ''/'' =
     (case map_of (files (root fs)) [] of
        None \<Rightarrow> Return (fs, None, Some (PathError ''unbind'' ''/'' ENOENT))
      | Some node \<Rightarrow>
          Return (fs\<lparr>root := Dir (dir_name (root fs)) (dir_attr (root fs))
                                (AList.delete [] (files (root fs))) (dir_fs (root fs)),
                     ticks := snd (sync nofs node (ticks fs))\<rparr>,
                  Some (fst (sync nofs node (ticks fs))), None))"
  by (simp add: Unbind_def Clean_root Split_root walkPath_root pathElements_root
        split: option.splits prod.splits)

text \<open>
  Claim C9. \<^verbatim>\<open>Bind\<close> returns an error and does not panic, whatever the path: also when
  the path names a file, or runs through one. In the sample tree \<^verbatim>\<open>/dev/foo\<close> is a file.
  For \<^verbatim>\<open>/dev/foo\<close>, \<^verbatim>\<open>walkPath\<close> returns the file and no error; for \<^verbatim>\<open>/dev/foo/bar\<close> it
  returns no node and \<^verbatim>\<open>ENOTDIR\<close>, which \<^verbatim>\<open>os.IsNotExist\<close> does not accept. In both cases
  \<^verbatim>\<open>bind\<close> reaches the type assertion \<^verbatim>\<open>d.(*Dir)\<close>, which panics.
\<close>

theorem Bind_on_file_panics:
  "walkPath (root sample_fs) ''open'' ''/dev/foo'' = Return (Some (RWN sample_foo), None) \<and>
   Bind sample_fs ''/dev/foo'' n = Panic \<and>
   walkPath (root sample_fs) ''open'' ''/dev/foo/bar'' =
     Return (None, Some (PathError ''open'' ''/dev/foo/bar'' ENOTDIR)) \<and>
   Bind sample_fs ''/dev/foo/bar'' n = Panic"
  by (simp add: Bind_def bind_def walkPath_def pathElements_def Clean_def Separator_def
      sample_fs_def sample_root_def sample_dev_def)

section \<open>Back-references\<close>

lemma Dir_SetSys_fs [simp]: "dir_fs (fst (Dir_SetSys d r t)) = ptr r"
  by (simp add: Dir_SetSys_def split: prod.splits)

text \<open>After \<open>sync\<close> every node of the subtree points to the receiver.\<close>

lemma sync_all:
  fixes n :: "'d Node" and d :: "'d Dir" and fl :: "(string \<times> 'd Node) list"
  shows "\<forall>m \<in> set (subnodes (fst (sync r n t))). Sys m = ptr r"
    and "\<forall>m \<in> set (subnodes (DirN (fst (sync_dir r d t)))). Sys m = ptr r"
    and "\<forall>m \<in> set (subnodes_files (fst (sync_files r fl t))). Sys m = ptr r"
proof (induction r n t and r d t and r fl t rule: sync_sync_dir_sync_files.induct)
  case (1 fs d t)
  then show ?case by (simp split: prod.splits)
next
  case (2 fs f t)
  then show ?case by (simp add: RO_SetSys_def split: prod.splits)
next
  case (3 fs f t)
  then show ?case by (simp add: WO_SetSys_def split: prod.splits)
next
  case (4 fs f t)
  then show ?case by (simp add: RW_SetSys_def split: prod.splits)
next
  case (5 fs nm a fl p t)
  then show ?case
    by (auto simp: Dir_SetSys_def split: prod.splits if_splits)
next
  case (6 fs t)
  then show ?case by simp
next
  case (7 fs k n rest t)
  then show ?case by (auto split: prod.splits)
qed

text \<open>
  On a subtree whose nodes all point to the receiver, \<open>sync\<close> changes nothing and does
  not call the clock.
\<close>

lemma sync_fixed:
  fixes n :: "'d Node" and d :: "'d Dir" and fl :: "(string \<times> 'd Node) list"
  shows "(\<forall>m \<in> set (subnodes n). Sys m = ptr r) \<Longrightarrow> sync r n t = (n, t)"
    and "(\<forall>m \<in> set (subnodes (DirN d)). Sys m = ptr r) \<Longrightarrow> sync_dir r d t = (d, t)"
    and "(\<forall>m \<in> set (subnodes_files fl). Sys m = ptr r) \<Longrightarrow> sync_files r fl t = (fl, t)"
proof (induction r n t and r d t and r fl t rule: sync_sync_dir_sync_files.induct)
  case (1 fs d t)
  then show ?case by (cases d) simp
next
  case (5 fs nm a fl p t)
  then show ?case by simp
next
  case (7 fs k n rest t)
  then show ?case by simp
qed simp_all

lemma Sync_consistent: "consistent (Sync fs)"
  using sync_all(2)[of "Some (self fs)" "root fs" "ticks fs"]
  by (simp add: consistent_def list_all_iff Sync_def ptr_def split: prod.splits)

lemma Sync_Sync: "Sync (Sync fs) = Sync fs"
proof -
  have "\<forall>m \<in> set (subnodes (DirN (root (Sync fs)))). Sys m = ptr (Some (self (Sync fs)))"
    using Sync_consistent[of fs] by (simp add: consistent_def list_all_iff ptr_def)
  then have "sync_dir (Some (self (Sync fs))) (root (Sync fs)) (ticks (Sync fs))
               = (root (Sync fs), ticks (Sync fs))"
    by (rule sync_fixed(2))
  then show ?thesis by (simp add: Sync_def[of "Sync fs"])
qed

lemma Sync_sample_back_references:
  "map Sys (subnodes (DirN (root (Sync sample_fs)))) = [Some 1, Some 1, Some 1, Some 1, Some 1]"
  by (simp add: Sync_def sample_fs_def sample_root_def sample_dev_def sample_input_def
      sample_foo_def Dir_SetSys_def RW_SetSys_def stamp_def ptr_def sample_clock_def)

lemma Unbind_sample_input:
  "\<exists>fs' node. Unbind (Sync sample_fs) ''/dev/input'' = Return (fs', Some node, None) \<and>
      map Name (subnodes node) = [''input'', ''by-path'']"
  by (simp add: Unbind_def Clean_def Split_def walkPath_def pathElements_def Separator_def
      Sync_def sample_fs_def sample_root_def sample_dev_def sample_input_def sample_foo_def
      Dir_SetSys_def RW_SetSys_def stamp_def ptr_def sample_clock_def nofs_def)

text \<open>
  Claim C6. After \<^verbatim>\<open>Sync\<close>, every node reachable from the root points to the file system
  that ran \<^verbatim>\<open>Sync\<close>; after a successful \<^verbatim>\<open>Unbind\<close>, the node returned and every node below
  it point to no file system.
\<close>

theorem Sync_Unbind_back_reference:
  "(\<forall>m \<in> set (subnodes (DirN (root (Sync fs)))). Sys m = Some (addr (self fs))) \<and>
   (Unbind fs path = Return (fs', Some node, None) \<longrightarrow>
      (\<forall>m \<in> set (subnodes node). Sys m = None))"
proof (intro conjI impI)
  show "\<forall>m \<in> set (subnodes (DirN (root (Sync fs)))). Sys m = Some (addr (self fs))"
    using sync_all(2)[of "Some (self fs)" "root fs" "ticks fs"]
    by (simp add: Sync_def ptr_def split: prod.splits)
next
  assume u: "Unbind fs path = Return (fs', Some node, None)"
  then have "\<exists>node0 t t'. sync nofs node0 t = (node, t')"
    by (auto simp: Unbind_def Let_def
        split: if_splits prod.splits outcome.splits option.splits Node.splits)
  then obtain node0 t where "node = fst (sync nofs node0 t)"
    by (metis fst_conv)
  then show "\<forall>m \<in> set (subnodes node). Sys m = None"
    using sync_all(1)[of nofs node0 t] by (simp add: ptr_def nofs_def)
qed

text \<open>
  The sample tree has five nodes, all bound by \<^verbatim>\<open>Sync\<close>; unbinding \<^verbatim>\<open>/dev/input\<close> returns
  the directory and the directory below it, both cleared.
\<close>

theorem Sync_Unbind_back_reference_witness:
  "map Sys (subnodes (DirN (root (Sync sample_fs)))) = [Some 1, Some 1, Some 1, Some 1, Some 1] \<and>
   (\<exists>fs' node. Unbind (Sync sample_fs) ''/dev/input'' = Return (fs', Some node, None) \<and>
      map Name (subnodes node) = [''input'', ''by-path''] \<and>
      map Sys (subnodes node) = [None, None])"
proof -
  obtain fs' node where u: "Unbind (Sync sample_fs) ''/dev/input'' = Return (fs', Some node, None)"
    and n: "map Name (subnodes node) = [''input'', ''by-path'']"
    using Unbind_sample_input by (elim exE conjE)
  have "\<forall>m \<in> set (subnodes node). Sys m = None"
    using Sync_Unbind_back_reference[of "Sync sample_fs" "''/dev/input''" fs' node] u by blast
  moreover have "length (subnodes node) = 2"
    using n by (metis length_map length_Cons list.size(3) numeral_2_eq_2)
  ultimately have ms: "map Sys (subnodes node) = [None, None]"
    by (cases "subnodes node"; cases "tl (subnodes node)") auto
  have "\<exists>fs' node. Unbind (Sync sample_fs) ''/dev/input'' = Return (fs', Some node, None) \<and>
      map Name (subnodes node) = [''input'', ''by-path''] \<and>
      map Sys (subnodes node) = [None, None]"
    using u n ms by (intro exI conjI)
  with Sync_sample_back_references show ?thesis by (rule conjI)
qed

text \<open>
  Claim C7. \<^verbatim>\<open>Sync\<close> is idempotent: on a tree in which every node already points to the
  file system, \<^verbatim>\<open>Sync\<close> rebinds no node and stamps no time. The file system that comes
  back is the one that went in, tree, times and number of clock calls.
\<close>

theorem Sync_idempotent: "consistent fs \<Longrightarrow> Sync fs = fs"
proof -
  assume "consistent fs"
  then have "\<forall>m \<in> set (subnodes (DirN (root fs))). Sys m = ptr (Some (self fs))"
    by (simp add: consistent_def list_all_iff ptr_def)
  then have "sync_dir (Some (self fs)) (root fs) (ticks fs) = (root fs, ticks fs)"
    by (rule sync_fixed(2))
  then show "Sync fs = fs" by (simp add: Sync_def)
qed

text \<open>
  The first \<^verbatim>\<open>Sync\<close> of the sample tree calls the clock five times; the second one calls
  it no more.
\<close>

theorem Sync_idempotent_witness:
  "consistent (Sync sample_fs) \<and> ticks (Sync sample_fs) = 5 \<and>
   Sync (Sync sample_fs) = Sync sample_fs \<and> ticks (Sync (Sync sample_fs)) = 5"
proof -
  have c: "consistent (Sync sample_fs)"
    by (simp add: consistent_def Sync_def sample_fs_def sample_root_def sample_dev_def
        sample_input_def sample_foo_def Dir_SetSys_def RW_SetSys_def stamp_def ptr_def
        sample_clock_def)
  have t: "ticks (Sync sample_fs) = 5"
    by (simp add: Sync_def sample_fs_def sample_root_def sample_dev_def sample_input_def
        sample_foo_def Dir_SetSys_def RW_SetSys_def stamp_def ptr_def sample_clock_def)
  show ?thesis using Sync_idempotent[OF c] c t by simp
qed

end
